theory Spec2Isabelle
  imports Complex_Main "HOL-Library.Sublist"
begin

section \<open>The KEF media player platform (custom_components/kef/media_player.py)\<close>

subsection \<open>Exceptions\<close>

text \<open>
  Whatever a Python call raises is a value of \<open>exn\<close>. The handler of \<open>async_update\<close> is
  \<^verbatim>\<open>except Exception\<close>, which matches the instances of \<open>Exception\<close> only, so the model
  keeps apart the exceptions that derive from \<open>Exception\<close> (\<open>ValueError\<close>, the client's
  communication error, any other such class) and the ones that derive from
  \<open>BaseException\<close> alone: \<open>KeyboardInterrupt\<close>, \<open>SystemExit\<close>, \<open>GeneratorExit\<close> and, from
  Python 3.8 on, \<open>asyncio.CancelledError\<close>, which is how the cancellation of the polling
  task reaches an awaited speaker call.

  The handler formats the exception into its log message, which calls the exception's
  \<^verbatim>\<open>__str__\<close>. \<open>ValueError\<close> and the communication error give their message. An instance
  of any other subclass of \<open>Exception\<close> is \<open>OtherException c r\<close>: \<open>c\<close> is the name of its
  class and \<open>r\<close> what its \<^verbatim>\<open>__str__\<close> does, return a text or raise in its turn.
\<close>

datatype exn =
    ValueError string
  | CommunicationError string
  | OtherException string "exn + string"
  | KeyboardInterrupt
  | SystemExit
  | GeneratorExit
  | CancelledError

fun isinstance_Exception :: "exn \<Rightarrow> bool" where
  "isinstance_Exception (ValueError _) = True"
| "isinstance_Exception (CommunicationError _) = True"
| "isinstance_Exception (OtherException _ _) = True"
| "isinstance_Exception KeyboardInterrupt = False"
| "isinstance_Exception SystemExit = False"
| "isinstance_Exception GeneratorExit = False"
| "isinstance_Exception CancelledError = False"

text \<open>\<^verbatim>\<open>f"{e}"\<close>: the text of the exception, or the exception that \<^verbatim>\<open>__str__\<close> raises.\<close>

fun py_str :: "exn \<Rightarrow> exn + string" where
  "py_str (ValueError msg) = Inr msg"
| "py_str (CommunicationError msg) = Inr msg"
| "py_str (OtherException _ r) = r"
| "py_str KeyboardInterrupt = Inr []"
| "py_str SystemExit = Inr []"
| "py_str GeneratorExit = Inr []"
| "py_str CancelledError = Inr []"

subsection \<open>The speaker client\<close>

text \<open>
  \<open>AsyncKefSpeaker\<close> lives in \<open>custom_components.kef.async_kef_api\<close>; the platform only
  calls it. Its constructor arguments are the record \<open>AsyncKefSpeaker\<close>; what its
  coroutines do is a parameter of the model: each one takes the state \<open>'d\<close> of the
  device and connection and gives back either the exception it raises or the value it
  returns, with the next state.
\<close>

record AsyncKefSpeaker =
  host :: string
  port :: int
  volume_step :: real
  maximum_volume :: real

record 'd speaker_api =
  is_online :: "'d \<Rightarrow> (exn + bool) \<times> 'd"
  is_muted :: "'d \<Rightarrow> (exn + bool) \<times> 'd"
  get_volume :: "'d \<Rightarrow> (exn + real) \<times> 'd"
  get_source_and_state :: "'d \<Rightarrow> (exn + string \<times> bool) \<times> 'd"
  turn_on :: "'d \<Rightarrow> (exn + unit) \<times> 'd"
  turn_off :: "'d \<Rightarrow> (exn + unit) \<times> 'd"
  increase_volume :: "'d \<Rightarrow> (exn + real) \<times> 'd"
  decrease_volume :: "'d \<Rightarrow> (exn + real) \<times> 'd"
  set_volume :: "real \<Rightarrow> 'd \<Rightarrow> (exn + unit) \<times> 'd"
  mute :: "'d \<Rightarrow> (exn + unit) \<times> 'd"
  unmute :: "'d \<Rightarrow> (exn + unit) \<times> 'd"
  set_source :: "string \<Rightarrow> 'd \<Rightarrow> (exn + unit) \<times> 'd"

text \<open>
  The calls made on the speaker are logged in the order they are awaited, so that a
  property of the order of the calls can be stated.
\<close>

datatype call =
    IsOnline
  | IsMuted
  | GetVolume
  | GetSourceAndState
  | TurnOn
  | TurnOff
  | IncreaseVolume
  | DecreaseVolume
  | SetVolume real
  | Mute
  | Unmute
  | SetSource string

record 'd world =
  device :: 'd
  calls :: "call list"

definition await :: "call \<Rightarrow> ('d \<Rightarrow> (exn + 'a) \<times> 'd) \<Rightarrow> 'd world \<Rightarrow> (exn + 'a) \<times> 'd world" where
  "await c f w =
     (case f (device w) of
        (r, d') \<Rightarrow> (r, \<lparr>device = d', calls = calls w @ [c]\<rparr>))"

subsection \<open>The entity\<close>

datatype ha_state = STATE_ON | STATE_OFF

text \<open>
  The attributes \<^verbatim>\<open>self._name\<close>, \<^verbatim>\<open>self._sources\<close>, \<^verbatim>\<open>self._speaker\<close>,
  \<^verbatim>\<open>self._state\<close>, \<^verbatim>\<open>self._muted\<close>, \<^verbatim>\<open>self._source\<close> and \<^verbatim>\<open>self._volume\<close>;
  Python's \<open>None\<close> is \<open>None\<close>.
\<close>

record KefMediaPlayer =
  self_name :: string
  self_sources :: "string list"
  self_speaker :: AsyncKefSpeaker
  self_state :: "ha_state option"
  self_muted :: "bool option"
  self_source :: "string option"
  self_volume :: "real option"

definition KefMediaPlayer_init ::
  "string \<Rightarrow> string \<Rightarrow> int \<Rightarrow> real \<Rightarrow> real \<Rightarrow> string list \<Rightarrow> KefMediaPlayer" where
  "KefMediaPlayer_init nm h p mx step srcs =
     \<lparr>self_name = nm,
      self_sources = srcs,
      self_speaker = \<lparr>host = h, port = p, volume_step = step, maximum_volume = mx\<rparr>,
      self_state = None,
      self_muted = None,
      self_source = None,
      self_volume = None\<rparr>"

definition name :: "KefMediaPlayer \<Rightarrow> string" where
  "name e = self_name e"

definition state :: "KefMediaPlayer \<Rightarrow> ha_state option" where
  "state e = self_state e"

definition volume_level :: "KefMediaPlayer \<Rightarrow> real option" where
  "volume_level e = self_volume e"

definition is_volume_muted :: "KefMediaPlayer \<Rightarrow> bool option" where
  "is_volume_muted e = self_muted e"

definition source :: "KefMediaPlayer \<Rightarrow> string option" where
  "source e = self_source e"

definition source_list :: "KefMediaPlayer \<Rightarrow> string list" where
  "source_list e = self_sources e"

text \<open>
  Every coroutine of the entity returns the exception that leaves it (\<open>None\<close> when it
  completes), the entity as the coroutine left it, and the world.
\<close>

type_synonym 'd outcome = "exn option \<times> KefMediaPlayer \<times> 'd world"

text \<open>The body of the \<^verbatim>\<open>try\<close> block of \<open>async_update\<close>.\<close>

definition async_update_try :: "'d speaker_api \<Rightarrow> KefMediaPlayer \<Rightarrow> 'd world \<Rightarrow> 'd outcome" where
  "async_update_try api e w =
     (case await IsOnline (is_online api) w of
        (Inl x, w1) \<Rightarrow> (Some x, e, w1)
      | (Inr online, w1) \<Rightarrow>
          if online then
            (case await IsMuted (is_muted api) w1 of
               (Inl x, w2) \<Rightarrow> (Some x, e, w2)
             | (Inr m, w2) \<Rightarrow>
                 (case await GetVolume (get_volume api) w2 of
                    (Inl x, w3) \<Rightarrow> (Some x, e\<lparr>self_muted := Some m\<rparr>, w3)
                  | (Inr v, w3) \<Rightarrow>
                      (case await GetSourceAndState (get_source_and_state api) w3 of
                         (Inl x, w4) \<Rightarrow>
                           (Some x, e\<lparr>self_muted := Some m, self_volume := Some v\<rparr>, w4)
                       | (Inr (s, is_on), w4) \<Rightarrow>
                           (None,
                            e\<lparr>self_muted := Some m,
                              self_volume := Some v,
                              self_source := Some s,
                              self_state := Some (if is_on then STATE_ON else STATE_OFF)\<rparr>,
                            w4))))
          else
            (None,
             e\<lparr>self_muted := None,
               self_source := None,
               self_volume := None,
               self_state := Some STATE_OFF\<rparr>,
             w1))"

text \<open>
  \<^verbatim>\<open>except Exception as e\<close>: the handler builds the log message
  \<^verbatim>\<open>f"Error in `update`: {e}"\<close> and returns. Building the message converts the
  exception to text; an exception raised by that conversion leaves the handler, and
  \<open>async_update\<close> with it.
\<close>

definition async_update :: "'d speaker_api \<Rightarrow> KefMediaPlayer \<Rightarrow> 'd world \<Rightarrow> 'd outcome" where
  "async_update api e w =
     (case async_update_try api e w of
        (None, e', w') \<Rightarrow> (None, e', w')
      | (Some x, e', w') \<Rightarrow>
          if isinstance_Exception x then
            (case py_str x of
               Inl y \<Rightarrow> (Some y, e', w')
             | Inr msg \<Rightarrow> (None, e', w'))
          else (Some x, e', w'))"

definition async_turn_off :: "'d speaker_api \<Rightarrow> KefMediaPlayer \<Rightarrow> 'd world \<Rightarrow> 'd outcome" where
  "async_turn_off api e w =
     (case await TurnOff (turn_off api) w of
        (Inl x, w') \<Rightarrow> (Some x, e, w')
      | (Inr _, w') \<Rightarrow> (None, e\<lparr>self_state := Some STATE_ON\<rparr>, w'))"

definition async_turn_on :: "'d speaker_api \<Rightarrow> KefMediaPlayer \<Rightarrow> 'd world \<Rightarrow> 'd outcome" where
  "async_turn_on api e w =
     (case await TurnOn (turn_on api) w of
        (Inl x, w') \<Rightarrow> (Some x, e, w')
      | (Inr _, w') \<Rightarrow> (None, e\<lparr>self_state := Some STATE_OFF\<rparr>, w'))"

definition async_volume_up :: "'d speaker_api \<Rightarrow> KefMediaPlayer \<Rightarrow> 'd world \<Rightarrow> 'd outcome" where
  "async_volume_up api e w =
     (case await IncreaseVolume (increase_volume api) w of
        (Inl x, w') \<Rightarrow> (Some x, e, w')
      | (Inr v, w') \<Rightarrow> (None, e\<lparr>self_volume := Some v\<rparr>, w'))"

definition async_volume_down :: "'d speaker_api \<Rightarrow> KefMediaPlayer \<Rightarrow> 'd world \<Rightarrow> 'd outcome" where
  "async_volume_down api e w =
     (case await DecreaseVolume (decrease_volume api) w of
        (Inl x, w') \<Rightarrow> (Some x, e, w')
      | (Inr v, w') \<Rightarrow> (None, e\<lparr>self_volume := Some v\<rparr>, w'))"

definition async_set_volume_level ::
  "'d speaker_api \<Rightarrow> real \<Rightarrow> KefMediaPlayer \<Rightarrow> 'd world \<Rightarrow> 'd outcome" where
  "async_set_volume_level api v e w =
     (case await (SetVolume v) (set_volume api v) w of
        (Inl x, w') \<Rightarrow> (Some x, e, w')
      | (Inr _, w') \<Rightarrow> (None, e\<lparr>self_volume := Some v\<rparr>, w'))"

definition async_mute_volume ::
  "'d speaker_api \<Rightarrow> bool \<Rightarrow> KefMediaPlayer \<Rightarrow> 'd world \<Rightarrow> 'd outcome" where
  "async_mute_volume api m e w =
     (case (if m then await Mute (mute api) w else await Unmute (unmute api) w) of
        (Inl x, w') \<Rightarrow> (Some x, e, w')
      | (Inr _, w') \<Rightarrow> (None, e\<lparr>self_muted := Some m\<rparr>, w'))"

definition async_select_source ::
  "'d speaker_api \<Rightarrow> string \<Rightarrow> KefMediaPlayer \<Rightarrow> 'd world \<Rightarrow> 'd outcome" where
  "async_select_source api s e w =
     (if s \<in> set (source_list e) then
        (case await (SetSource s) (set_source api s) w of
           (Inl x, w') \<Rightarrow> (Some x, e\<lparr>self_source := Some s\<rparr>, w')
         | (Inr _, w') \<Rightarrow> (None, e\<lparr>self_source := Some s\<rparr>, w'))
      else (Some (ValueError (''Unknown input source: '' @ s @ ''.'')), e, w))"

subsection \<open>Platform setup\<close>

text \<open>Python's \<open>str\<close> on an \<open>int\<close>, as the f-string \<^verbatim>\<open>f"{host}:{port}"\<close> applies it.\<close>

fun str_nat :: "nat \<Rightarrow> string" where
  "str_nat n =
     (if n < 10 then [''0123456789'' ! n]
      else str_nat (n div 10) @ [''0123456789'' ! (n mod 10)])"

declare str_nat.simps [simp del]

definition str_int :: "int \<Rightarrow> string" where
  "str_int i = (if i < 0 then ''-'' @ str_nat (nat (- i)) else str_nat (nat i))"

text \<open>
  The validated platform configuration: \<open>CONF_HOST\<close>, \<open>CONF_PORT\<close>, \<open>CONF_NAME\<close>,
  \<open>CONF_MAX_VOLUME\<close> and \<open>CONF_VOLUME_STEP\<close>.
\<close>

record config =
  conf_host :: string
  conf_port :: int
  conf_name :: string
  conf_maximum_volume :: real
  conf_volume_step :: real

text \<open>
  What the setup touches of the host platform: \<open>data_kef\<close> is the entry
  \<^verbatim>\<open>hass.data[DATA_KEF]\<close> (\<open>None\<close> while the key is not in \<^verbatim>\<open>hass.data\<close>), and
  \<open>added_entities\<close> lists the arguments of the calls of \<^verbatim>\<open>async_add_entities\<close>, in order.
\<close>

record hass =
  data_kef :: "(string \<rightharpoonup> KefMediaPlayer) option"
  added_entities :: "(KefMediaPlayer list \<times> bool) list"

text \<open>
  \<open>KEF_LS50_SOURCES\<close> is computed from the table \<open>INPUT_SOURCES\<close> of the client module;
  it is a parameter here.
\<close>

definition async_setup_platform :: "string list \<Rightarrow> hass \<Rightarrow> config \<Rightarrow> hass" where
  "async_setup_platform KEF_LS50_SOURCES hs cfg =
     (let registry = (case data_kef hs of None \<Rightarrow> Map.empty | Some r \<Rightarrow> r);
          media_player =
            KefMediaPlayer_init (conf_name cfg) (conf_host cfg) (conf_port cfg)
              (conf_maximum_volume cfg) (conf_volume_step cfg) KEF_LS50_SOURCES;
          unique_id = conf_host cfg @ '':'' @ str_int (conf_port cfg)
      in if unique_id \<in> dom registry then hs\<lparr>data_kef := Some registry\<rparr>
         else hs\<lparr>data_kef := Some (registry(unique_id \<mapsto> media_player)),
                 added_entities := added_entities hs @ [([media_player], True)]\<rparr>)"

subsection \<open>Concrete scenarios\<close>

text \<open>
  A speaker that answers every call: online, not muted, volume 0.3, source Wifi,
  powered on. The device state counts the requests it has served.
\<close>

definition answering_api :: "nat speaker_api" where
  "answering_api =
     \<lparr>is_online = (\<lambda>d. (Inr True, Suc d)),
      is_muted = (\<lambda>d. (Inr False, Suc d)),
      get_volume = (\<lambda>d. (Inr (3 / 10), Suc d)),
      get_source_and_state = (\<lambda>d. (Inr (''Wifi'', True), Suc d)),
      turn_on = (\<lambda>d. (Inr (), Suc d)),
      turn_off = (\<lambda>d. (Inr (), Suc d)),
      increase_volume = (\<lambda>d. (Inr (7 / 20), Suc d)),
      decrease_volume = (\<lambda>d. (Inr (1 / 4), Suc d)),
      set_volume = (\<lambda>v d. (Inr (), Suc d)),
      mute = (\<lambda>d. (Inr (), Suc d)),
      unmute = (\<lambda>d. (Inr (), Suc d)),
      set_source = (\<lambda>s d. (Inr (), Suc d))\<rparr>"

text \<open>The same speaker when it is unreachable: \<open>is_online\<close> returns false.\<close>

definition offline_api :: "nat speaker_api" where
  "offline_api = answering_api\<lparr>is_online := (\<lambda>d. (Inr False, Suc d))\<rparr>"

text \<open>A speaker on which every call raises the exception \<open>x\<close>.\<close>

definition raising_api :: "exn \<Rightarrow> nat speaker_api" where
  "raising_api x =
     \<lparr>is_online = (\<lambda>d. (Inl x, d)),
      is_muted = (\<lambda>d. (Inl x, d)),
      get_volume = (\<lambda>d. (Inl x, d)),
      get_source_and_state = (\<lambda>d. (Inl x, d)),
      turn_on = (\<lambda>d. (Inl x, d)),
      turn_off = (\<lambda>d. (Inl x, d)),
      increase_volume = (\<lambda>d. (Inl x, d)),
      decrease_volume = (\<lambda>d. (Inl x, d)),
      set_volume = (\<lambda>v d. (Inl x, d)),
      mute = (\<lambda>d. (Inl x, d)),
      unmute = (\<lambda>d. (Inl x, d)),
      set_source = (\<lambda>s d. (Inl x, d))\<rparr>"

text \<open>
  A speaker whose connection drops after \<open>n\<close> requests: the first \<open>n\<close> calls are
  answered (online, muted, volume 0.45, source Opt, powered on), every later call raises
  \<open>x\<close>.
\<close>

definition dropping_api :: "nat \<Rightarrow> exn \<Rightarrow> nat speaker_api" where
  "dropping_api n x =
     \<lparr>is_online = (\<lambda>d. if d < n then (Inr True, Suc d) else (Inl x, d)),
      is_muted = (\<lambda>d. if d < n then (Inr True, Suc d) else (Inl x, d)),
      get_volume = (\<lambda>d. if d < n then (Inr (9 / 20), Suc d) else (Inl x, d)),
      get_source_and_state = (\<lambda>d. if d < n then (Inr (''Opt'', True), Suc d) else (Inl x, d)),
      turn_on = (\<lambda>d. if d < n then (Inr (), Suc d) else (Inl x, d)),
      turn_off = (\<lambda>d. if d < n then (Inr (), Suc d) else (Inl x, d)),
      increase_volume = (\<lambda>d. if d < n then (Inr (1 / 2), Suc d) else (Inl x, d)),
      decrease_volume = (\<lambda>d. if d < n then (Inr (2 / 5), Suc d) else (Inl x, d)),
      set_volume = (\<lambda>v d. if d < n then (Inr (), Suc d) else (Inl x, d)),
      mute = (\<lambda>d. if d < n then (Inr (), Suc d) else (Inl x, d)),
      unmute = (\<lambda>d. if d < n then (Inr (), Suc d) else (Inl x, d)),
      set_source = (\<lambda>s d. if d < n then (Inr (), Suc d) else (Inl x, d))\<rparr>"

text \<open>
  An instance of a subclass of \<open>Exception\<close> whose \<^verbatim>\<open>__str__\<close> raises
  \<^verbatim>\<open>RuntimeError("boom")\<close>.
\<close>

definition unprintable :: exn where
  "unprintable =
     OtherException ''Unprintable'' (Inl (OtherException ''RuntimeError'' (Inr ''boom'')))"

definition fresh_player :: KefMediaPlayer where
  "fresh_player =
     KefMediaPlayer_init ''KEF'' ''192.168.1.20'' 50001 (1 / 2) (1 / 20)
       [''Aux'', ''Bluetooth'', ''Opt'', ''Usb'', ''Wifi'']"

text \<open>The entity after a poll that found the speaker on, playing Wifi at volume 0.3.\<close>

definition playing_player :: KefMediaPlayer where
  "playing_player =
     fresh_player\<lparr>self_state := Some STATE_ON,
                  self_muted := Some False,
                  self_source := Some ''Wifi'',
                  self_volume := Some (3 / 10)\<rparr>"

text \<open>The same entity when the last poll found the speaker in standby.\<close>

definition standby_player :: KefMediaPlayer where
  "standby_player = playing_player\<lparr>self_state := Some STATE_OFF\<rparr>"

definition world0 :: "nat world" where
  "world0 = \<lparr>device = 0, calls = []\<rparr>"

definition living_room :: config where
  "living_room =
     \<lparr>conf_host = ''192.168.1.20'',
      conf_port = 50001,
      conf_name = ''KEF'',
      conf_maximum_volume = 1 / 2,
      conf_volume_step = 1 / 20\<rparr>"

definition living_room_renamed :: config where
  "living_room_renamed = living_room\<lparr>conf_name := ''KEF LS50'', conf_maximum_volume := 4 / 5\<rparr>"

definition kitchen :: config where
  "kitchen =
     \<lparr>conf_host = ''192.168.1.21'',
      conf_port = 50001,
      conf_name = ''Kitchen'',
      conf_maximum_volume = 1 / 2,
      conf_volume_step = 1 / 20\<rparr>"

definition hass0 :: hass where
  "hass0 = \<lparr>data_kef = None, added_entities = []\<rparr>"

section \<open>Properties\<close>

lemmas scenario_defs = answering_api_def offline_api_def raising_api_def dropping_api_def
  fresh_player_def playing_player_def standby_player_def world0_def KefMediaPlayer_init_def
  await_def

lemmas property_defs = state_def volume_level_def is_volume_muted_def source_def source_list_def

text \<open>
  One cycle of the \<^verbatim>\<open>try\<close> block ends in one of six ways: \<open>is_online\<close> raises, it
  returns false, one of the three later calls raises, or all four calls return.
\<close>

lemma async_update_try_cases:
  obtains
    (online_raises) x d1 where
      "is_online api (device w) = (Inl x, d1)"
      "async_update_try api e w = (Some x, e, \<lparr>device = d1, calls = calls w @ [IsOnline]\<rparr>)"
  | (offline) d1 where
      "is_online api (device w) = (Inr False, d1)"
      "async_update_try api e w =
         (None,
          e\<lparr>self_muted := None, self_source := None, self_volume := None,
            self_state := Some STATE_OFF\<rparr>,
          \<lparr>device = d1, calls = calls w @ [IsOnline]\<rparr>)"
  | (muted_raises) x d1 d2 where
      "is_online api (device w) = (Inr True, d1)"
      "is_muted api d1 = (Inl x, d2)"
      "async_update_try api e w =
         (Some x, e, \<lparr>device = d2, calls = calls w @ [IsOnline, IsMuted]\<rparr>)"
  | (volume_raises) x m d1 d2 d3 where
      "is_online api (device w) = (Inr True, d1)"
      "is_muted api d1 = (Inr m, d2)"
      "get_volume api d2 = (Inl x, d3)"
      "async_update_try api e w =
         (Some x, e\<lparr>self_muted := Some m\<rparr>,
          \<lparr>device = d3, calls = calls w @ [IsOnline, IsMuted, GetVolume]\<rparr>)"
  | (source_raises) x m v d1 d2 d3 d4 where
      "is_online api (device w) = (Inr True, d1)"
      "is_muted api d1 = (Inr m, d2)"
      "get_volume api d2 = (Inr v, d3)"
      "get_source_and_state api d3 = (Inl x, d4)"
      "async_update_try api e w =
         (Some x, e\<lparr>self_muted := Some m, self_volume := Some v\<rparr>,
          \<lparr>device = d4, calls = calls w @ [IsOnline, IsMuted, GetVolume, GetSourceAndState]\<rparr>)"
  | (all_read) m v s is_on d1 d2 d3 d4 where
      "is_online api (device w) = (Inr True, d1)"
      "is_muted api d1 = (Inr m, d2)"
      "get_volume api d2 = (Inr v, d3)"
      "get_source_and_state api d3 = (Inr (s, is_on), d4)"
      "async_update_try api e w =
         (None,
          e\<lparr>self_muted := Some m, self_volume := Some v, self_source := Some s,
            self_state := Some (if is_on then STATE_ON else STATE_OFF)\<rparr>,
          \<lparr>device = d4, calls = calls w @ [IsOnline, IsMuted, GetVolume, GetSourceAndState]\<rparr>)"
proof -
  obtain r1 d1 where c1: "is_online api (device w) = (r1, d1)"
    by (cases "is_online api (device w)")
  show thesis
  proof (cases r1)
    case (Inl x)
    with c1 show thesis
      by (intro online_raises [of x d1]) (simp_all add: async_update_try_def await_def)
  next
    case (Inr online)
    show thesis
    proof (cases online)
      case False
      with Inr c1 show thesis
        by (intro offline [of d1]) (simp_all add: async_update_try_def await_def)
    next
      case True
      with Inr c1 have o: "is_online api (device w) = (Inr True, d1)" by simp
      obtain r2 d2 where c2: "is_muted api d1 = (r2, d2)"
        by (cases "is_muted api d1")
      show thesis
      proof (cases r2)
        case (Inl x)
        with o c2 show thesis
          by (intro muted_raises [of d1 x d2]) (simp_all add: async_update_try_def await_def)
      next
        case (Inr m)
        with c2 have mu: "is_muted api d1 = (Inr m, d2)" by simp
        obtain r3 d3 where c3: "get_volume api d2 = (r3, d3)"
          by (cases "get_volume api d2")
        show thesis
        proof (cases r3)
          case (Inl x)
          with o mu c3 show thesis
            by (intro volume_raises [of d1 m d2 x d3])
               (simp_all add: async_update_try_def await_def)
        next
          case (Inr v)
          with c3 have vo: "get_volume api d2 = (Inr v, d3)" by simp
          obtain r4 d4 where c4: "get_source_and_state api d3 = (r4, d4)"
            by (cases "get_source_and_state api d3")
          show thesis
          proof (cases r4)
            case (Inl x)
            with o mu vo c4 show thesis
              by (intro source_raises [of d1 m d2 v d3 x d4])
                 (simp_all add: async_update_try_def await_def)
          next
            case (Inr p)
            obtain s is_on where p: "p = (s, is_on)" by (cases p)
            with Inr o mu vo c4 show thesis
              by (intro all_read [of d1 m d2 v d3 s is_on d4])
                 (simp_all add: async_update_try_def await_def)
          qed
        qed
      qed
    qed
  qed
qed

lemma async_update_world:
  "snd (snd (async_update api e w)) = snd (snd (async_update_try api e w))"
  by (simp add: async_update_def split: prod.splits option.splits sum.splits)

lemma async_update_entity:
  "fst (snd (async_update api e w)) = fst (snd (async_update_try api e w))"
  by (simp add: async_update_def split: prod.splits option.splits sum.splits)

text \<open>
  The handler changes neither the entity nor the world; it decides only which exception,
  if any, leaves \<open>async_update\<close>.
\<close>

lemma async_update_handler:
  assumes "async_update_try api e w = (Some x, e1, w1)"
  shows "async_update api e w =
           (if isinstance_Exception x then
              (case py_str x of Inl y \<Rightarrow> (Some y, e1, w1) | Inr msg \<Rightarrow> (None, e1, w1))
            else (Some x, e1, w1))"
  using assms by (simp add: async_update_def)

lemma async_update_completed:
  assumes "async_update_try api e w = (None, e1, w1)"
  shows "async_update api e w = (None, e1, w1)"
  using assms by (simp add: async_update_def)

lemma try_is_online_raises:
  assumes "is_online api (device w) = (Inl x, d1)"
  shows "async_update_try api e w =
           (Some x, e, \<lparr>device = d1, calls = calls w @ [IsOnline]\<rparr>)"
  using assms by (simp add: async_update_try_def await_def)

lemma try_offline:
  assumes "is_online api (device w) = (Inr False, d1)"
  shows "async_update_try api e w =
           (None,
            e\<lparr>self_muted := None, self_source := None, self_volume := None,
              self_state := Some STATE_OFF\<rparr>,
            \<lparr>device = d1, calls = calls w @ [IsOnline]\<rparr>)"
  using assms by (simp add: async_update_try_def await_def)

lemma try_is_muted_raises:
  assumes "is_online api (device w) = (Inr True, d1)"
      and "is_muted api d1 = (Inl x, d2)"
  shows "async_update_try api e w =
           (Some x, e, \<lparr>device = d2, calls = calls w @ [IsOnline, IsMuted]\<rparr>)"
  using assms by (simp add: async_update_try_def await_def)

lemma try_get_volume_raises:
  assumes "is_online api (device w) = (Inr True, d1)"
      and "is_muted api d1 = (Inr m, d2)"
      and "get_volume api d2 = (Inl x, d3)"
  shows "async_update_try api e w =
           (Some x, e\<lparr>self_muted := Some m\<rparr>,
            \<lparr>device = d3, calls = calls w @ [IsOnline, IsMuted, GetVolume]\<rparr>)"
  using assms by (simp add: async_update_try_def await_def)

lemma try_get_source_and_state_raises:
  assumes "is_online api (device w) = (Inr True, d1)"
      and "is_muted api d1 = (Inr m, d2)"
      and "get_volume api d2 = (Inr v, d3)"
      and "get_source_and_state api d3 = (Inl x, d4)"
  shows "async_update_try api e w =
           (Some x, e\<lparr>self_muted := Some m, self_volume := Some v\<rparr>,
            \<lparr>device = d4,
             calls = calls w @ [IsOnline, IsMuted, GetVolume, GetSourceAndState]\<rparr>)"
  using assms by (simp add: async_update_try_def await_def)

lemma try_all_read:
  assumes "is_online api (device w) = (Inr True, d1)"
      and "is_muted api d1 = (Inr m, d2)"
      and "get_volume api d2 = (Inr v, d3)"
      and "get_source_and_state api d3 = (Inr (s, is_on), d4)"
  shows "async_update_try api e w =
           (None,
            e\<lparr>self_muted := Some m, self_volume := Some v, self_source := Some s,
              self_state := Some (if is_on then STATE_ON else STATE_OFF)\<rparr>,
            \<lparr>device = d4,
             calls = calls w @ [IsOnline, IsMuted, GetVolume, GetSourceAndState]\<rparr>)"
  using assms by (simp add: async_update_try_def await_def)

subsection \<open>Setting the volume\<close>

text \<open>
  C1, as claimed: for every volume \<open>v\<close> in \<open>[0, 1]\<close>, after \<open>async_set_volume_level v\<close>
  completes the \<open>volume_level\<close> property is \<open>min v maximum_volume\<close>. The entity stores
  the requested level as it is: with the ceiling at 0.5, setting 0.8 completes and leaves
  \<open>volume_level\<close> at 0.8, not at 0.5.
\<close>

theorem set_volume_level_not_clamped:
  "(0::real) \<le> 4 / 5 \<and> (4 / 5 :: real) \<le> 1 \<and>
   fst (async_set_volume_level answering_api (4 / 5) playing_player world0) = None \<and>
   volume_level (fst (snd (async_set_volume_level answering_api (4 / 5) playing_player world0)))
     \<noteq> Some (min (4 / 5) (maximum_volume (self_speaker playing_player)))"
  by (simp add: async_set_volume_level_def volume_level_def scenario_defs)

text \<open>
  C1, amended: after \<open>async_set_volume_level v\<close> completes without an exception the
  \<open>volume_level\<close> property is the requested \<open>v\<close> itself; it equals
  \<open>min v maximum_volume\<close> exactly when \<open>v\<close> does not exceed the configured maximum.
\<close>

theorem set_volume_level_stores_request:
  assumes "async_set_volume_level api v e w = (None, e', w')"
  shows "volume_level e' = Some v \<and>
         (volume_level e' = Some (min v (maximum_volume (self_speaker e))))
            = (v \<le> maximum_volume (self_speaker e))"
  using assms
  by (auto simp: async_set_volume_level_def volume_level_def split: prod.splits sum.splits)

theorem set_volume_level_stores_request_witness:
  "async_set_volume_level answering_api (2 / 5) playing_player world0 =
     (None, playing_player\<lparr>self_volume := Some (2 / 5)\<rparr>,
      \<lparr>device = 1, calls = [SetVolume (2 / 5)]\<rparr>) \<and>
   volume_level (playing_player\<lparr>self_volume := Some (2 / 5)\<rparr>) = Some (2 / 5) \<and>
   (2 / 5 :: real) \<le> maximum_volume (self_speaker playing_player)"
proof -
  have run: "async_set_volume_level answering_api (2 / 5) playing_player world0 =
     (None, playing_player\<lparr>self_volume := Some (2 / 5)\<rparr>,
      \<lparr>device = 1, calls = [SetVolume (2 / 5)]\<rparr>)"
    by (simp add: async_set_volume_level_def scenario_defs)
  have le: "(2 / 5 :: real) \<le> maximum_volume (self_speaker playing_player)"
    by (simp add: scenario_defs)
  from set_volume_level_stores_request [OF run] run le show ?thesis by blast
qed

subsection \<open>Selecting a source\<close>

text \<open>
  C2, on the code: \<open>async_select_source\<close> assigns \<^verbatim>\<open>self._source\<close> before it awaits
  \<open>set_source\<close>. With the entity on Wifi, selecting Aux while \<open>set_source\<close> raises a
  communication error propagates the error, and the \<open>source\<close> property has become Aux.
\<close>

theorem select_source_failure_overwrites_source:
  "''Aux'' \<in> set (source_list playing_player) \<and>
   source playing_player = Some ''Wifi'' \<and>
   async_select_source (raising_api (CommunicationError ''timeout'')) ''Aux'' playing_player world0 =
     (Some (CommunicationError ''timeout''),
      playing_player\<lparr>self_source := Some ''Aux''\<rparr>,
      \<lparr>device = 0, calls = [SetSource ''Aux'']\<rparr>) \<and>
   source (playing_player\<lparr>self_source := Some ''Aux''\<rparr>) = Some ''Aux''"
  by (simp add: async_select_source_def scenario_defs property_defs)

text \<open>
  C3: for every string \<open>s\<close> that is not in the source list, \<open>async_select_source s\<close>
  fails with the invalid-source error (a \<open>ValueError\<close> saying
  \<^verbatim>\<open>Unknown input source: s.\<close>), makes no call on the speaker, so that no other source is
  selected in its place, and leaves the entity, its \<open>source\<close> property included, as it was.
\<close>

theorem select_unknown_source_fails:
  assumes "s \<notin> set (source_list e)"
  shows "async_select_source api s e w =
           (Some (ValueError (''Unknown input source: '' @ s @ ''.'')), e, w)"
  using assms by (simp add: async_select_source_def)

theorem select_unknown_source_fails_witness:
  "''Unknown'' \<notin> set (source_list playing_player) \<and>
   async_select_source answering_api ''Unknown'' playing_player world0 =
     (Some (ValueError ''Unknown input source: Unknown.''), playing_player, world0)"
proof -
  have notin: "''Unknown'' \<notin> set (source_list playing_player)"
    by (simp add: scenario_defs property_defs)
  from select_unknown_source_fails [OF notin, of answering_api world0] notin
  show ?thesis by simp
qed

subsection \<open>Polling\<close>

text \<open>
  C5: in every update cycle in which \<open>is_online\<close> returns false, \<open>async_update\<close> raises no
  exception and sets the state to off and the volume level, the mute flag and the source
  to \<open>None\<close>.
\<close>

theorem update_offline_resets:
  assumes "fst (is_online api (device w)) = Inr False"
      and "async_update api e w = (r, e', w')"
  shows "r = None \<and> state e' = Some STATE_OFF \<and> volume_level e' = None \<and>
         is_volume_muted e' = None \<and> source e' = None"
  using assms
  by (auto simp: async_update_def async_update_try_def await_def property_defs
        split: prod.splits)

theorem update_offline_resets_witness:
  "fst (is_online offline_api (device world0)) = Inr False \<and>
   async_update offline_api playing_player world0 =
     (None,
      playing_player\<lparr>self_muted := None, self_source := None, self_volume := None,
                     self_state := Some STATE_OFF\<rparr>,
      \<lparr>device = 1, calls = [IsOnline]\<rparr>) \<and>
   state (playing_player\<lparr>self_muted := None, self_source := None, self_volume := None,
                         self_state := Some STATE_OFF\<rparr>) = Some STATE_OFF \<and>
   volume_level (playing_player\<lparr>self_muted := None, self_source := None, self_volume := None,
                         self_state := Some STATE_OFF\<rparr>) = None"
proof -
  have off: "fst (is_online offline_api (device world0)) = Inr False"
    by (simp add: scenario_defs)
  have run: "async_update offline_api playing_player world0 =
     (None,
      playing_player\<lparr>self_muted := None, self_source := None, self_volume := None,
                     self_state := Some STATE_OFF\<rparr>,
      \<lparr>device = 1, calls = [IsOnline]\<rparr>)"
    by (simp add: async_update_def async_update_try_def scenario_defs)
  from update_offline_resets [OF off run] off run show ?thesis by blast
qed

text \<open>
  C4, as claimed: in every update cycle in which a poll-path call raises, \<open>async_update\<close>
  swallows the failure and the entity ends the cycle off, with volume, mute and source
  unknown. The handler only logs: when \<open>is_online\<close> raises a communication error on an
  entity that is on, at volume 0.3, not muted, on Wifi, the failure is swallowed and the
  entity still reports on, 0.3, not muted, Wifi.
\<close>

theorem update_failure_keeps_stale_state:
  "fst (is_online (raising_api (CommunicationError ''timeout'')) (device world0)) =
     Inl (CommunicationError ''timeout'') \<and>
   async_update (raising_api (CommunicationError ''timeout'')) playing_player world0 =
     (None, playing_player, \<lparr>device = 0, calls = [IsOnline]\<rparr>) \<and>
   state playing_player = Some STATE_ON \<and>
   volume_level playing_player = Some (3 / 10) \<and>
   is_volume_muted playing_player = Some False \<and>
   source playing_player = Some ''Wifi''"
  by (simp add: async_update_def async_update_try_def scenario_defs property_defs)

text \<open>
  C4, amended: in every update cycle in which a poll-path call raises an instance of
  \<open>Exception\<close> that the handler can format for its log message, \<open>async_update\<close> swallows
  the failure and writes no degraded state. The entity is left as the \<^verbatim>\<open>try\<close> block left
  it: unchanged when \<open>is_online\<close> or \<open>is_muted\<close> raised, with the mute flag just read when
  \<open>get_volume\<close> raised, with the mute flag and the volume just read when
  \<open>get_source_and_state\<close> raised. The state and the source are the ones before the cycle
  in all four cases, and no call follows the failing one.
\<close>

theorem update_failure_swallowed_state_kept:
  assumes "isinstance_Exception x" and "py_str x = Inr msg"
  shows "(is_online api (device w) = (Inl x, d1) \<longrightarrow>
            async_update api e w =
              (None, e, \<lparr>device = d1, calls = calls w @ [IsOnline]\<rparr>)) \<and>
         (is_online api (device w) = (Inr True, d1) \<and>
          is_muted api d1 = (Inl x, d2) \<longrightarrow>
            async_update api e w =
              (None, e, \<lparr>device = d2, calls = calls w @ [IsOnline, IsMuted]\<rparr>)) \<and>
         (is_online api (device w) = (Inr True, d1) \<and>
          is_muted api d1 = (Inr m, d2) \<and>
          get_volume api d2 = (Inl x, d3) \<longrightarrow>
            async_update api e w =
              (None, e\<lparr>self_muted := Some m\<rparr>,
               \<lparr>device = d3, calls = calls w @ [IsOnline, IsMuted, GetVolume]\<rparr>)) \<and>
         (is_online api (device w) = (Inr True, d1) \<and>
          is_muted api d1 = (Inr m, d2) \<and>
          get_volume api d2 = (Inr v, d3) \<and>
          get_source_and_state api d3 = (Inl x, d4) \<longrightarrow>
            async_update api e w =
              (None, e\<lparr>self_muted := Some m, self_volume := Some v\<rparr>,
               \<lparr>device = d4,
                calls = calls w @ [IsOnline, IsMuted, GetVolume, GetSourceAndState]\<rparr>))"
proof -
  have online: "async_update api e w =
      (None, e, \<lparr>device = d1, calls = calls w @ [IsOnline]\<rparr>)"
    if "is_online api (device w) = (Inl x, d1)"
    using async_update_handler [OF try_is_online_raises [OF that]] assms by simp
  have muted: "async_update api e w =
      (None, e, \<lparr>device = d2, calls = calls w @ [IsOnline, IsMuted]\<rparr>)"
    if "is_online api (device w) = (Inr True, d1)" and "is_muted api d1 = (Inl x, d2)"
    using async_update_handler [OF try_is_muted_raises [OF that]] assms by simp
  have volume: "async_update api e w =
      (None, e\<lparr>self_muted := Some m\<rparr>,
       \<lparr>device = d3, calls = calls w @ [IsOnline, IsMuted, GetVolume]\<rparr>)"
    if "is_online api (device w) = (Inr True, d1)" and "is_muted api d1 = (Inr m, d2)"
      and "get_volume api d2 = (Inl x, d3)"
    using async_update_handler [OF try_get_volume_raises [OF that]] assms by simp
  have src: "async_update api e w =
      (None, e\<lparr>self_muted := Some m, self_volume := Some v\<rparr>,
       \<lparr>device = d4, calls = calls w @ [IsOnline, IsMuted, GetVolume, GetSourceAndState]\<rparr>)"
    if "is_online api (device w) = (Inr True, d1)" and "is_muted api d1 = (Inr m, d2)"
      and "get_volume api d2 = (Inr v, d3)" and "get_source_and_state api d3 = (Inl x, d4)"
    using async_update_handler [OF try_get_source_and_state_raises [OF that]] assms by simp
  from online muted volume src show ?thesis by blast
qed

text \<open>
  The four cases on a speaker whose connection drops after 0, 1, 2 and 3 requests, polled
  by an entity that is on, not muted, at volume 0.3, on Wifi: the state stays on and the
  source Wifi; the mute flag and the volume become the fresh readings (muted, 0.45) only
  where they were read before the failure.
\<close>

theorem update_failure_swallowed_state_kept_witness:
  "isinstance_Exception (CommunicationError ''timeout'') \<and>
   py_str (CommunicationError ''timeout'') = Inr ''timeout'' \<and>
   async_update (dropping_api 0 (CommunicationError ''timeout'')) playing_player world0 =
     (None, playing_player, \<lparr>device = 0, calls = [IsOnline]\<rparr>) \<and>
   async_update (dropping_api 1 (CommunicationError ''timeout'')) playing_player world0 =
     (None, playing_player, \<lparr>device = 1, calls = [IsOnline, IsMuted]\<rparr>) \<and>
   async_update (dropping_api 2 (CommunicationError ''timeout'')) playing_player world0 =
     (None, playing_player\<lparr>self_muted := Some True\<rparr>,
      \<lparr>device = 2, calls = [IsOnline, IsMuted, GetVolume]\<rparr>) \<and>
   async_update (dropping_api 3 (CommunicationError ''timeout'')) playing_player world0 =
     (None, playing_player\<lparr>self_muted := Some True, self_volume := Some (9 / 20)\<rparr>,
      \<lparr>device = 3, calls = [IsOnline, IsMuted, GetVolume, GetSourceAndState]\<rparr>) \<and>
   state (playing_player\<lparr>self_muted := Some True, self_volume := Some (9 / 20)\<rparr>) =
     Some STATE_ON \<and>
   source (playing_player\<lparr>self_muted := Some True, self_volume := Some (9 / 20)\<rparr>) =
     Some ''Wifi''"
proof -
  have cls: "isinstance_Exception (CommunicationError ''timeout'')" by simp
  have fmt: "py_str (CommunicationError ''timeout'') = Inr ''timeout''" by simp
  have a0: "is_online (dropping_api 0 (CommunicationError ''timeout'')) (device world0) =
      (Inl (CommunicationError ''timeout''), 0)"
    by (simp add: scenario_defs)
  have a1: "is_online (dropping_api 1 (CommunicationError ''timeout'')) (device world0) =
      (Inr True, 1)"
    and b1: "is_muted (dropping_api 1 (CommunicationError ''timeout'')) 1 =
      (Inl (CommunicationError ''timeout''), 1)"
    by (simp_all add: scenario_defs)
  have a2: "is_online (dropping_api 2 (CommunicationError ''timeout'')) (device world0) =
      (Inr True, 1)"
    and b2: "is_muted (dropping_api 2 (CommunicationError ''timeout'')) 1 = (Inr True, 2)"
    and c2: "get_volume (dropping_api 2 (CommunicationError ''timeout'')) 2 =
      (Inl (CommunicationError ''timeout''), 2)"
    by (simp_all add: scenario_defs)
  have a3: "is_online (dropping_api 3 (CommunicationError ''timeout'')) (device world0) =
      (Inr True, 1)"
    and b3: "is_muted (dropping_api 3 (CommunicationError ''timeout'')) 1 = (Inr True, 2)"
    and c3: "get_volume (dropping_api 3 (CommunicationError ''timeout'')) 2 =
      (Inr (9 / 20), 3)"
    and d3: "get_source_and_state (dropping_api 3 (CommunicationError ''timeout'')) 3 =
      (Inl (CommunicationError ''timeout''), 3)"
    by (simp_all add: scenario_defs)
  have w0: "calls world0 = []" by (simp add: world0_def)
  from update_failure_swallowed_state_kept
         [OF cls fmt, of "dropping_api 0 (CommunicationError ''timeout'')" world0 0 playing_player]
       a0 w0
  have r0: "async_update (dropping_api 0 (CommunicationError ''timeout'')) playing_player world0 =
     (None, playing_player, \<lparr>device = 0, calls = [IsOnline]\<rparr>)"
    by simp
  from update_failure_swallowed_state_kept
         [OF cls fmt, of "dropping_api 1 (CommunicationError ''timeout'')" world0 1 playing_player 1]
       a1 b1 w0
  have r1: "async_update (dropping_api 1 (CommunicationError ''timeout'')) playing_player world0 =
     (None, playing_player, \<lparr>device = 1, calls = [IsOnline, IsMuted]\<rparr>)"
    by simp
  from update_failure_swallowed_state_kept
         [OF cls fmt, of "dropping_api 2 (CommunicationError ''timeout'')" world0 1 playing_player
            2 True 2]
       a2 b2 c2 w0
  have r2: "async_update (dropping_api 2 (CommunicationError ''timeout'')) playing_player world0 =
     (None, playing_player\<lparr>self_muted := Some True\<rparr>,
      \<lparr>device = 2, calls = [IsOnline, IsMuted, GetVolume]\<rparr>)"
    by simp
  from update_failure_swallowed_state_kept
         [OF cls fmt, of "dropping_api 3 (CommunicationError ''timeout'')" world0 1 playing_player
            2 True 3 "9 / 20" 3]
       a3 b3 c3 d3 w0
  have r3: "async_update (dropping_api 3 (CommunicationError ''timeout'')) playing_player world0 =
     (None, playing_player\<lparr>self_muted := Some True, self_volume := Some (9 / 20)\<rparr>,
      \<lparr>device = 3, calls = [IsOnline, IsMuted, GetVolume, GetSourceAndState]\<rparr>)"
    by simp
  have st: "state (playing_player\<lparr>self_muted := Some True, self_volume := Some (9 / 20)\<rparr>) =
     Some STATE_ON"
    and so: "source (playing_player\<lparr>self_muted := Some True, self_volume := Some (9 / 20)\<rparr>) =
     Some ''Wifi''"
    by (simp_all add: scenario_defs property_defs)
  from cls fmt r0 r1 r2 r3 st so show ?thesis by blast
qed

text \<open>
  C6: in every update cycle \<open>async_update\<close> calls \<open>is_online\<close> first; the calls that
  follow are \<open>is_muted\<close>, \<open>get_volume\<close> and \<open>get_source_and_state\<close>, in this order, and
  there are any only when \<open>is_online\<close> returned true in this cycle. When the four calls
  return, the state is on or off as the flag returned by \<open>get_source_and_state\<close> says,
  and the source is the one it returned.
\<close>

theorem update_call_order:
  assumes "async_update api e w = (r, e', w')"
  shows "(\<exists>rest. calls w' = calls w @ IsOnline # rest \<and>
            prefix rest [IsMuted, GetVolume, GetSourceAndState] \<and>
            (rest \<noteq> [] \<longrightarrow> fst (is_online api (device w)) = Inr True)) \<and>
         (is_online api (device w) = (Inr True, d1) \<and>
          is_muted api d1 = (Inr m, d2) \<and>
          get_volume api d2 = (Inr v, d3) \<and>
          get_source_and_state api d3 = (Inr (s, is_on), d4) \<longrightarrow>
            state e' = Some (if is_on then STATE_ON else STATE_OFF) \<and> source e' = Some s)"
proof -
  have w': "w' = snd (snd (async_update_try api e w))"
    using assms async_update_world [of api e w] by simp
  have e': "e' = fst (snd (async_update_try api e w))"
    using assms async_update_entity [of api e w] by simp
  have trace: "\<exists>rest. calls w' = calls w @ IsOnline # rest \<and>
            prefix rest [IsMuted, GetVolume, GetSourceAndState] \<and>
            (rest \<noteq> [] \<longrightarrow> fst (is_online api (device w)) = Inr True)"
  proof (cases rule: async_update_try_cases [where api = api and w = w and e = e])
    case (online_raises x d1)
    with w' show ?thesis by simp
  next
    case (offline d1)
    with w' show ?thesis by simp
  next
    case (muted_raises x d1 d2)
    with w' have "calls w' = calls w @ IsOnline # [IsMuted]" by simp
    with muted_raises show ?thesis by (intro exI [of _ "[IsMuted]"]) simp
  next
    case (volume_raises x m d1 d2 d3)
    with w' have "calls w' = calls w @ IsOnline # [IsMuted, GetVolume]" by simp
    with volume_raises show ?thesis by (intro exI [of _ "[IsMuted, GetVolume]"]) simp
  next
    case (source_raises x m v d1 d2 d3 d4)
    with w' have "calls w' = calls w @ IsOnline # [IsMuted, GetVolume, GetSourceAndState]"
      by simp
    with source_raises show ?thesis
      by (intro exI [of _ "[IsMuted, GetVolume, GetSourceAndState]"]) simp
  next
    case (all_read m v s is_on d1 d2 d3 d4)
    with w' have "calls w' = calls w @ IsOnline # [IsMuted, GetVolume, GetSourceAndState]"
      by simp
    with all_read show ?thesis
      by (intro exI [of _ "[IsMuted, GetVolume, GetSourceAndState]"]) simp
  qed
  have reading: "is_online api (device w) = (Inr True, d1) \<and>
          is_muted api d1 = (Inr m, d2) \<and>
          get_volume api d2 = (Inr v, d3) \<and>
          get_source_and_state api d3 = (Inr (s, is_on), d4) \<longrightarrow>
            state e' = Some (if is_on then STATE_ON else STATE_OFF) \<and> source e' = Some s"
    by (cases rule: async_update_try_cases [where api = api and w = w and e = e]) (auto simp: e' property_defs)
  from trace reading show ?thesis by blast
qed

theorem update_call_order_witness:
  "async_update answering_api fresh_player world0 =
     (None,
      fresh_player\<lparr>self_muted := Some False, self_volume := Some (3 / 10),
                   self_source := Some ''Wifi'', self_state := Some STATE_ON\<rparr>,
      \<lparr>device = 4, calls = [IsOnline, IsMuted, GetVolume, GetSourceAndState]\<rparr>) \<and>
   fst (is_online answering_api (device world0)) = Inr True \<and>
   is_online answering_api (device world0) = (Inr True, 1) \<and>
   is_muted answering_api 1 = (Inr False, 2) \<and>
   get_volume answering_api 2 = (Inr (3 / 10), 3) \<and>
   get_source_and_state answering_api 3 = (Inr (''Wifi'', True), 4) \<and>
   state (fresh_player\<lparr>self_muted := Some False, self_volume := Some (3 / 10),
                       self_source := Some ''Wifi'', self_state := Some STATE_ON\<rparr>) = Some STATE_ON"
proof -
  have run: "async_update answering_api fresh_player world0 =
     (None,
      fresh_player\<lparr>self_muted := Some False, self_volume := Some (3 / 10),
                   self_source := Some ''Wifi'', self_state := Some STATE_ON\<rparr>,
      \<lparr>device = 4, calls = [IsOnline, IsMuted, GetVolume, GetSourceAndState]\<rparr>)"
    by (simp add: async_update_def async_update_try_def scenario_defs)
  have r1: "is_online answering_api (device world0) = (Inr True, 1)"
    by (simp add: scenario_defs)
  have r2: "is_muted answering_api 1 = (Inr False, 2)"
    by (simp add: scenario_defs)
  have r3: "get_volume answering_api 2 = (Inr (3 / 10), 3)"
    by (simp add: scenario_defs)
  have r4: "get_source_and_state answering_api 3 = (Inr (''Wifi'', True), 4)"
    by (simp add: scenario_defs)
  note inst = update_call_order [OF run, of 1 False 2 "3 / 10" 3 "''Wifi''" True 4]
  from inst r1 r2 r3 r4
  have st: "state (fresh_player\<lparr>self_muted := Some False, self_volume := Some (3 / 10),
                       self_source := Some ''Wifi'', self_state := Some STATE_ON\<rparr>) = Some STATE_ON"
    by simp
  from inst have "fst (is_online answering_api (device world0)) = Inr True"
    by auto
  with run r1 r2 r3 r4 st show ?thesis by blast
qed

text \<open>
  C10, as claimed: \<open>async_update\<close> never propagates an exception, whatever the speaker
  calls do. The handler is \<^verbatim>\<open>except Exception\<close>, and it formats what it caught: a
  \<open>KeyboardInterrupt\<close> raised by \<open>is_online\<close> leaves \<open>async_update\<close>, and so does the
  \<open>RuntimeError\<close> raised by the \<^verbatim>\<open>__str__\<close> of an instance of \<open>Exception\<close> that
  \<open>is_online\<close> raised.
\<close>

theorem update_propagates_exceptions:
  "fst (is_online (raising_api KeyboardInterrupt) (device world0)) = Inl KeyboardInterrupt \<and>
   fst (async_update (raising_api KeyboardInterrupt) playing_player world0) =
     Some KeyboardInterrupt \<and>
   fst (is_online (raising_api unprintable) (device world0)) = Inl unprintable \<and>
   isinstance_Exception unprintable \<and>
   fst (async_update (raising_api unprintable) playing_player world0) =
     Some (OtherException ''RuntimeError'' (Inr ''boom''))"
  by (simp add: async_update_def async_update_try_def scenario_defs unprintable_def)

text \<open>
  C10, amended: \<open>async_update\<close> propagates an exception in two situations only. When a
  polling call raises an exception that is not an instance of \<open>Exception\<close>
  (\<open>KeyboardInterrupt\<close>, \<open>SystemExit\<close>, \<open>GeneratorExit\<close>, \<open>CancelledError\<close>), that exception
  passes the handler and leaves \<open>async_update\<close>. When a polling call raises an instance of
  \<open>Exception\<close> whose conversion to text for the log message raises, the exception of the
  conversion leaves \<open>async_update\<close>. In every other cycle, that is when the raised
  instance of \<open>Exception\<close> can be formatted, when \<open>is_online\<close> returns false and when all
  four calls return, \<open>async_update\<close> returns without an exception.
\<close>

theorem update_propagation:
  "(is_online api (device w) = (Inl x, d1) \<or>
    (is_online api (device w) = (Inr True, d1) \<and>
     is_muted api d1 = (Inl x, d2)) \<or>
    (is_online api (device w) = (Inr True, d1) \<and>
     is_muted api d1 = (Inr m, d2) \<and>
     get_volume api d2 = (Inl x, d3)) \<or>
    (is_online api (device w) = (Inr True, d1) \<and>
     is_muted api d1 = (Inr m, d2) \<and>
     get_volume api d2 = (Inr v, d3) \<and>
     get_source_and_state api d3 = (Inl x, d4))
    \<longrightarrow>
      fst (async_update api e w) =
        (if isinstance_Exception x then
           (case py_str x of Inl y \<Rightarrow> Some y | Inr msg \<Rightarrow> None)
         else Some x)) \<and>
   (is_online api (device w) = (Inr False, d1) \<or>
    (is_online api (device w) = (Inr True, d1) \<and>
     is_muted api d1 = (Inr m, d2) \<and>
     get_volume api d2 = (Inr v, d3) \<and>
     get_source_and_state api d3 = (Inr (s, is_on), d4))
    \<longrightarrow> fst (async_update api e w) = None)"
proof -
  have handled: "fst (async_update api e w) =
        (if isinstance_Exception x then
           (case py_str x of Inl y \<Rightarrow> Some y | Inr msg \<Rightarrow> None)
         else Some x)"
    if "async_update_try api e w = (Some x, e1, w1)" for e1 w1
    using async_update_handler [OF that] by (simp split: sum.splits)
  have completed: "fst (async_update api e w) = None"
    if "async_update_try api e w = (None, e1, w1)" for e1 w1
    using async_update_completed [OF that] by simp
  have raising: "fst (async_update api e w) =
        (if isinstance_Exception x then
           (case py_str x of Inl y \<Rightarrow> Some y | Inr msg \<Rightarrow> None)
         else Some x)"
    if "is_online api (device w) = (Inl x, d1) \<or>
        (is_online api (device w) = (Inr True, d1) \<and>
         is_muted api d1 = (Inl x, d2)) \<or>
        (is_online api (device w) = (Inr True, d1) \<and>
         is_muted api d1 = (Inr m, d2) \<and>
         get_volume api d2 = (Inl x, d3)) \<or>
        (is_online api (device w) = (Inr True, d1) \<and>
         is_muted api d1 = (Inr m, d2) \<and>
         get_volume api d2 = (Inr v, d3) \<and>
         get_source_and_state api d3 = (Inl x, d4))"
    using that
  proof (elim disjE conjE)
    assume "is_online api (device w) = (Inl x, d1)"
    from handled [OF try_is_online_raises [OF this]] show ?thesis .
  next
    assume "is_online api (device w) = (Inr True, d1)" "is_muted api d1 = (Inl x, d2)"
    from handled [OF try_is_muted_raises [OF this]] show ?thesis .
  next
    assume "is_online api (device w) = (Inr True, d1)" "is_muted api d1 = (Inr m, d2)"
      "get_volume api d2 = (Inl x, d3)"
    from handled [OF try_get_volume_raises [OF this]] show ?thesis .
  next
    assume "is_online api (device w) = (Inr True, d1)" "is_muted api d1 = (Inr m, d2)"
      "get_volume api d2 = (Inr v, d3)" "get_source_and_state api d3 = (Inl x, d4)"
    from handled [OF try_get_source_and_state_raises [OF this]] show ?thesis .
  qed
  have returning: "fst (async_update api e w) = None"
    if "is_online api (device w) = (Inr False, d1) \<or>
        (is_online api (device w) = (Inr True, d1) \<and>
         is_muted api d1 = (Inr m, d2) \<and>
         get_volume api d2 = (Inr v, d3) \<and>
         get_source_and_state api d3 = (Inr (s, is_on), d4))"
    using that
  proof (elim disjE conjE)
    assume "is_online api (device w) = (Inr False, d1)"
    from completed [OF try_offline [OF this]] show ?thesis .
  next
    assume "is_online api (device w) = (Inr True, d1)" "is_muted api d1 = (Inr m, d2)"
      "get_volume api d2 = (Inr v, d3)" "get_source_and_state api d3 = (Inr (s, is_on), d4)"
    from completed [OF try_all_read [OF this]] show ?thesis .
  qed
  from raising returning show ?thesis by blast
qed

text \<open>
  On a speaker whose connection drops: a \<open>KeyboardInterrupt\<close> from \<open>is_online\<close>, a
  \<open>CancelledError\<close> from \<open>is_muted\<close> and a \<open>SystemExit\<close> from \<open>get_source_and_state\<close> leave
  \<open>async_update\<close>; so does the \<open>RuntimeError\<close> of an unprintable exception raised by
  \<open>get_volume\<close>; a communication error from \<open>get_source_and_state\<close> does not, and neither
  does a cycle that finds the speaker offline or reads it through.
\<close>

theorem update_propagation_witness:
  "fst (async_update (dropping_api 0 KeyboardInterrupt) playing_player world0) =
     Some KeyboardInterrupt \<and>
   fst (async_update (dropping_api 1 CancelledError) playing_player world0) =
     Some CancelledError \<and>
   fst (async_update (dropping_api 3 SystemExit) playing_player world0) = Some SystemExit \<and>
   fst (async_update (dropping_api 2 unprintable) playing_player world0) =
     Some (OtherException ''RuntimeError'' (Inr ''boom'')) \<and>
   fst (async_update (dropping_api 3 (CommunicationError ''timeout'')) playing_player world0) =
     None \<and>
   fst (async_update offline_api playing_player world0) = None \<and>
   fst (async_update answering_api playing_player world0) = None"
proof -
  have k: "is_online (dropping_api 0 KeyboardInterrupt) (device world0) =
      (Inl KeyboardInterrupt, 0)"
    by (simp add: scenario_defs)
  from update_propagation
         [where api = "dropping_api 0 KeyboardInterrupt" and w = world0 and x = KeyboardInterrupt
            and ?d1.0 = 0 and ?d2.0 = 0 and m = True and ?d3.0 = 0 and v = 0 and ?d4.0 = 0
            and s = "[]" and is_on = True and e = playing_player]
       k
  have r1: "fst (async_update (dropping_api 0 KeyboardInterrupt) playing_player world0) =
     Some KeyboardInterrupt"
    by simp
  have c: "is_online (dropping_api 1 CancelledError) (device world0) = (Inr True, 1)"
      "is_muted (dropping_api 1 CancelledError) 1 = (Inl CancelledError, 1)"
    by (simp_all add: scenario_defs)
  from update_propagation
         [where api = "dropping_api 1 CancelledError" and w = world0 and x = CancelledError
            and ?d1.0 = 1 and ?d2.0 = 1 and m = True and ?d3.0 = 0 and v = 0 and ?d4.0 = 0
            and s = "[]" and is_on = True and e = playing_player]
       c
  have r2: "fst (async_update (dropping_api 1 CancelledError) playing_player world0) =
     Some CancelledError"
    by simp
  have x: "is_online (dropping_api 3 SystemExit) (device world0) = (Inr True, 1)"
      "is_muted (dropping_api 3 SystemExit) 1 = (Inr True, 2)"
      "get_volume (dropping_api 3 SystemExit) 2 = (Inr (9 / 20), 3)"
      "get_source_and_state (dropping_api 3 SystemExit) 3 = (Inl SystemExit, 3)"
    by (simp_all add: scenario_defs)
  from update_propagation
         [where api = "dropping_api 3 SystemExit" and w = world0 and x = SystemExit
            and ?d1.0 = 1 and ?d2.0 = 2 and m = True and ?d3.0 = 3 and v = "9 / 20" and ?d4.0 = 3
            and s = "[]" and is_on = True and e = playing_player]
       x
  have r3: "fst (async_update (dropping_api 3 SystemExit) playing_player world0) =
     Some SystemExit"
    by simp
  have u: "is_online (dropping_api 2 unprintable) (device world0) = (Inr True, 1)"
      "is_muted (dropping_api 2 unprintable) 1 = (Inr True, 2)"
      "get_volume (dropping_api 2 unprintable) 2 = (Inl unprintable, 2)"
    by (simp_all add: scenario_defs)
  from update_propagation
         [where api = "dropping_api 2 unprintable" and w = world0 and x = unprintable
            and ?d1.0 = 1 and ?d2.0 = 2 and m = True and ?d3.0 = 2 and v = 0 and ?d4.0 = 0
            and s = "[]" and is_on = True and e = playing_player]
       u
  have r4: "fst (async_update (dropping_api 2 unprintable) playing_player world0) =
     Some (OtherException ''RuntimeError'' (Inr ''boom''))"
    by (simp add: unprintable_def)
  have t: "is_online (dropping_api 3 (CommunicationError ''timeout'')) (device world0) =
        (Inr True, 1)"
      "is_muted (dropping_api 3 (CommunicationError ''timeout'')) 1 = (Inr True, 2)"
      "get_volume (dropping_api 3 (CommunicationError ''timeout'')) 2 = (Inr (9 / 20), 3)"
      "get_source_and_state (dropping_api 3 (CommunicationError ''timeout'')) 3 =
        (Inl (CommunicationError ''timeout''), 3)"
    by (simp_all add: scenario_defs)
  from update_propagation
         [where api = "dropping_api 3 (CommunicationError ''timeout'')" and w = world0
            and x = "CommunicationError ''timeout''"
            and ?d1.0 = 1 and ?d2.0 = 2 and m = True and ?d3.0 = 3 and v = "9 / 20" and ?d4.0 = 3
            and s = "[]" and is_on = True and e = playing_player]
       t
  have r5: "fst (async_update (dropping_api 3 (CommunicationError ''timeout'')) playing_player
      world0) = None"
    by simp
  have off: "is_online offline_api (device world0) = (Inr False, 1)"
    by (simp add: scenario_defs)
  from update_propagation
         [where api = offline_api and w = world0 and x = KeyboardInterrupt
            and ?d1.0 = 1 and ?d2.0 = 0 and m = True and ?d3.0 = 0 and v = 0 and ?d4.0 = 0
            and s = "[]" and is_on = True and e = playing_player]
       off
  have r6: "fst (async_update offline_api playing_player world0) = None"
    by simp
  have ok: "is_online answering_api (device world0) = (Inr True, 1)"
      "is_muted answering_api 1 = (Inr False, 2)"
      "get_volume answering_api 2 = (Inr (3 / 10), 3)"
      "get_source_and_state answering_api 3 = (Inr (''Wifi'', True), 4)"
    by (simp_all add: scenario_defs)
  from update_propagation
         [where api = answering_api and w = world0 and x = KeyboardInterrupt
            and ?d1.0 = 1 and ?d2.0 = 2 and m = False and ?d3.0 = 3 and v = "3 / 10" and ?d4.0 = 4
            and s = "''Wifi''" and is_on = True and e = playing_player]
       ok
  have r7: "fst (async_update answering_api playing_player world0) = None"
    by simp
  from r1 r2 r3 r4 r5 r6 r7 show ?thesis by blast
qed

subsection \<open>Muting\<close>

text \<open>
  C8: for every mute flag \<open>m\<close>, \<open>async_mute_volume m\<close> changes nothing of the entity but
  the muted flag, whether the speaker call completes or raises: the volume level, the
  source and the state properties are the ones before the call, and the muted flag is
  \<open>m\<close> once the call has completed.
\<close>

theorem mute_changes_only_muted:
  "(case async_mute_volume api m e w of
      (r, e', w') \<Rightarrow>
        e' = e\<lparr>self_muted := self_muted e'\<rparr> \<and>
        volume_level e' = volume_level e \<and> source e' = source e \<and> state e' = state e \<and>
        is_volume_muted e' = (if r = None then Some m else is_volume_muted e))"
  by (auto simp: async_mute_volume_def await_def property_defs
        split: prod.splits sum.splits if_splits)

subsection \<open>Power\<close>

text \<open>
  C9: when the speaker's \<open>turn_off\<close> returns, \<open>async_turn_off\<close> completes and has written
  \<open>STATE_ON\<close> to the state, and when \<open>turn_on\<close> returns, \<open>async_turn_on\<close> completes and
  has written \<open>STATE_OFF\<close>: each power operation writes the state opposite to the command
  it sent, and nothing else. Whenever either operation has completed without an
  exception, the \<open>state\<close> property is that opposite state.
\<close>

theorem power_commands_write_opposite_state:
  "(turn_off api (device w) = (Inr u, d1) \<longrightarrow>
      async_turn_off api e w =
        (None, e\<lparr>self_state := Some STATE_ON\<rparr>,
         \<lparr>device = d1, calls = calls w @ [TurnOff]\<rparr>)) \<and>
   (turn_on api (device w) = (Inr u, d2) \<longrightarrow>
      async_turn_on api e w =
        (None, e\<lparr>self_state := Some STATE_OFF\<rparr>,
         \<lparr>device = d2, calls = calls w @ [TurnOn]\<rparr>)) \<and>
   (async_turn_off api e w = (None, e1, w1) \<longrightarrow> state e1 = Some STATE_ON) \<and>
   (async_turn_on api e w = (None, e2, w2) \<longrightarrow> state e2 = Some STATE_OFF)"
proof -
  have off: "async_turn_off api e w =
        (None, e\<lparr>self_state := Some STATE_ON\<rparr>,
         \<lparr>device = d1, calls = calls w @ [TurnOff]\<rparr>)"
    if "turn_off api (device w) = (Inr u, d1)"
    using that by (simp add: async_turn_off_def await_def)
  have on: "async_turn_on api e w =
        (None, e\<lparr>self_state := Some STATE_OFF\<rparr>,
         \<lparr>device = d2, calls = calls w @ [TurnOn]\<rparr>)"
    if "turn_on api (device w) = (Inr u, d2)"
    using that by (simp add: async_turn_on_def await_def)
  have off_done: "state e1 = Some STATE_ON" if "async_turn_off api e w = (None, e1, w1)"
    using that by (auto simp: async_turn_off_def state_def split: prod.splits sum.splits)
  have on_done: "state e2 = Some STATE_OFF" if "async_turn_on api e w = (None, e2, w2)"
    using that by (auto simp: async_turn_on_def state_def split: prod.splits sum.splits)
  from off on off_done on_done show ?thesis by blast
qed

text \<open>
  Turning off an entity that shows off makes it show on, and turning on an entity that
  shows on makes it show off.
\<close>

theorem power_commands_write_opposite_state_witness:
  "state standby_player = Some STATE_OFF \<and>
   turn_off answering_api (device world0) = (Inr (), 1) \<and>
   async_turn_off answering_api standby_player world0 =
     (None, standby_player\<lparr>self_state := Some STATE_ON\<rparr>,
      \<lparr>device = 1, calls = [TurnOff]\<rparr>) \<and>
   state (standby_player\<lparr>self_state := Some STATE_ON\<rparr>) = Some STATE_ON \<and>
   state playing_player = Some STATE_ON \<and>
   turn_on answering_api (device world0) = (Inr (), 1) \<and>
   async_turn_on answering_api playing_player world0 =
     (None, playing_player\<lparr>self_state := Some STATE_OFF\<rparr>,
      \<lparr>device = 1, calls = [TurnOn]\<rparr>) \<and>
   state (playing_player\<lparr>self_state := Some STATE_OFF\<rparr>) = Some STATE_OFF"
proof -
  have before: "state standby_player = Some STATE_OFF" "state playing_player = Some STATE_ON"
    by (simp_all add: scenario_defs property_defs)
  have off: "turn_off answering_api (device world0) = (Inr (), 1)"
    and on: "turn_on answering_api (device world0) = (Inr (), 1)"
    by (simp_all add: scenario_defs)
  have w0: "calls world0 = []" by (simp add: world0_def)
  from power_commands_write_opposite_state
         [where api = answering_api and w = world0 and u = "()" and ?d1.0 = 1 and ?d2.0 = 1
            and e = standby_player
            and ?e1.0 = "standby_player\<lparr>self_state := Some STATE_ON\<rparr>"
            and ?w1.0 = "\<lparr>device = 1, calls = [TurnOff]\<rparr>"
            and ?e2.0 = "standby_player\<lparr>self_state := Some STATE_OFF\<rparr>"
            and ?w2.0 = "\<lparr>device = 1, calls = [TurnOn]\<rparr>"]
       off w0
  have r1: "async_turn_off answering_api standby_player world0 =
     (None, standby_player\<lparr>self_state := Some STATE_ON\<rparr>,
      \<lparr>device = 1, calls = [TurnOff]\<rparr>)"
    and s1: "state (standby_player\<lparr>self_state := Some STATE_ON\<rparr>) = Some STATE_ON"
    by simp_all
  from power_commands_write_opposite_state
         [where api = answering_api and w = world0 and u = "()" and ?d1.0 = 1 and ?d2.0 = 1
            and e = playing_player
            and ?e1.0 = "playing_player\<lparr>self_state := Some STATE_ON\<rparr>"
            and ?w1.0 = "\<lparr>device = 1, calls = [TurnOff]\<rparr>"
            and ?e2.0 = "playing_player\<lparr>self_state := Some STATE_OFF\<rparr>"
            and ?w2.0 = "\<lparr>device = 1, calls = [TurnOn]\<rparr>"]
       on w0
  have r2: "async_turn_on answering_api playing_player world0 =
     (None, playing_player\<lparr>self_state := Some STATE_OFF\<rparr>,
      \<lparr>device = 1, calls = [TurnOn]\<rparr>)"
    and s2: "state (playing_player\<lparr>self_state := Some STATE_OFF\<rparr>) = Some STATE_OFF"
    by simp_all
  from before off on r1 s1 r2 s2 show ?thesis by blast
qed

subsection \<open>Platform setup\<close>

lemma setup_registered:
  "\<exists>reg. data_kef (async_setup_platform srcs hs cfg) = Some reg \<and>
         conf_host cfg @ '':'' @ str_int (conf_port cfg) \<in> dom reg"
proof (cases "data_kef hs")
  case None
  then show ?thesis by (simp add: async_setup_platform_def Let_def)
next
  case (Some reg)
  then show ?thesis
    by (cases "conf_host cfg @ '':'' @ str_int (conf_port cfg) \<in> dom reg")
       (simp_all add: async_setup_platform_def Let_def)
qed

lemma setup_already_configured:
  assumes "data_kef hs = Some reg"
      and "conf_host cfg @ '':'' @ str_int (conf_port cfg) \<in> dom reg"
  shows "async_setup_platform srcs hs cfg = hs"
  using assms by (simp add: async_setup_platform_def Let_def)

lemma setup_adds_at_most_one:
  "length (added_entities (async_setup_platform srcs hs cfg)) \<le> Suc (length (added_entities hs))"
  by (simp add: async_setup_platform_def Let_def)

text \<open>An entry of the registry survives every later setup, with the instance it holds.\<close>

lemma setup_keeps_entry:
  assumes "data_kef hs = Some reg" and "reg k = Some p"
  shows "\<exists>reg'. data_kef (async_setup_platform srcs hs cfg) = Some reg' \<and> reg' k = Some p"
proof (cases "conf_host cfg @ '':'' @ str_int (conf_port cfg) \<in> dom reg")
  case True
  with assms show ?thesis by (simp add: async_setup_platform_def Let_def)
next
  case False
  with assms(2) have "k \<noteq> conf_host cfg @ '':'' @ str_int (conf_port cfg)" by auto
  with False assms show ?thesis by (simp add: async_setup_platform_def Let_def)
qed

lemma setups_keep_entry:
  assumes "data_kef hs = Some reg" and "reg k = Some p"
  shows "\<exists>reg'. data_kef (foldl (async_setup_platform srcs) hs cfgs) = Some reg' \<and>
                reg' k = Some p"
  using assms
proof (induction cfgs arbitrary: hs reg)
  case Nil
  then show ?case by simp
next
  case (Cons cfg cfgs)
  from setup_keeps_entry [OF Cons.prems, of srcs cfg]
  obtain reg1 where "data_kef (async_setup_platform srcs hs cfg) = Some reg1" "reg1 k = Some p"
    by blast
  from Cons.IH [OF this] show ?case by simp
qed

text \<open>
  C7: for every pair of platform setups with the same host and port, whatever other
  setups run between the two, the second setup finds the key \<open>host:port\<close> in the registry,
  still holding the instance it held after the first setup, and changes nothing: it
  neither registers its own instance nor hands an entity to \<^verbatim>\<open>async_add_entities\<close>.
\<close>

theorem second_setup_adds_nothing:
  assumes "conf_host c2 = conf_host c1" and "conf_port c2 = conf_port c1"
  shows "\<exists>reg p reg'.
           data_kef (async_setup_platform srcs hs c1) = Some reg \<and>
           reg (conf_host c1 @ '':'' @ str_int (conf_port c1)) = Some p \<and>
           data_kef (foldl (async_setup_platform srcs) (async_setup_platform srcs hs c1) mid) =
             Some reg' \<and>
           reg' (conf_host c1 @ '':'' @ str_int (conf_port c1)) = Some p \<and>
           async_setup_platform srcs
               (foldl (async_setup_platform srcs) (async_setup_platform srcs hs c1) mid) c2 =
             foldl (async_setup_platform srcs) (async_setup_platform srcs hs c1) mid"
proof -
  from setup_registered [of srcs hs c1]
  obtain reg p where reg: "data_kef (async_setup_platform srcs hs c1) = Some reg"
      and key: "reg (conf_host c1 @ '':'' @ str_int (conf_port c1)) = Some p"
    by (auto simp: dom_def)
  from setups_keep_entry [OF reg key, of srcs mid]
  obtain reg' where reg': "data_kef (foldl (async_setup_platform srcs)
        (async_setup_platform srcs hs c1) mid) = Some reg'"
      and key': "reg' (conf_host c1 @ '':'' @ str_int (conf_port c1)) = Some p"
    by blast
  from key' assms have "conf_host c2 @ '':'' @ str_int (conf_port c2) \<in> dom reg'"
    by (simp add: dom_def)
  with reg' have "async_setup_platform srcs
               (foldl (async_setup_platform srcs) (async_setup_platform srcs hs c1) mid) c2 =
             foldl (async_setup_platform srcs) (async_setup_platform srcs hs c1) mid"
    by (rule setup_already_configured)
  with reg key reg' key' show ?thesis by blast
qed

text \<open>
  The living room speaker is set up, then the kitchen speaker, then the living room
  speaker again under another name: two entities are added, not three.
\<close>

theorem second_setup_adds_nothing_witness:
  "conf_host living_room_renamed = conf_host living_room \<and>
   conf_port living_room_renamed = conf_port living_room \<and>
   async_setup_platform [''Aux'', ''Wifi'']
       (foldl (async_setup_platform [''Aux'', ''Wifi''])
          (async_setup_platform [''Aux'', ''Wifi''] hass0 living_room) [kitchen])
       living_room_renamed =
     foldl (async_setup_platform [''Aux'', ''Wifi''])
       (async_setup_platform [''Aux'', ''Wifi''] hass0 living_room) [kitchen] \<and>
   added_entities
     (async_setup_platform [''Aux'', ''Wifi'']
       (foldl (async_setup_platform [''Aux'', ''Wifi''])
          (async_setup_platform [''Aux'', ''Wifi''] hass0 living_room) [kitchen])
       living_room_renamed) =
     [([KefMediaPlayer_init ''KEF'' ''192.168.1.20'' 50001 (1 / 2) (1 / 20) [''Aux'', ''Wifi'']],
       True),
      ([KefMediaPlayer_init ''Kitchen'' ''192.168.1.21'' 50001 (1 / 2) (1 / 20)
          [''Aux'', ''Wifi'']],
       True)]"
proof -
  have h: "conf_host living_room_renamed = conf_host living_room"
    by (simp add: living_room_renamed_def)
  have p: "conf_port living_room_renamed = conf_port living_room"
    by (simp add: living_room_renamed_def)
  have port: "str_int 50001 = ''50001''"
    by (simp add: str_int_def str_nat.simps)
  have two: "added_entities
       (foldl (async_setup_platform [''Aux'', ''Wifi''])
          (async_setup_platform [''Aux'', ''Wifi''] hass0 living_room) [kitchen]) =
     [([KefMediaPlayer_init ''KEF'' ''192.168.1.20'' 50001 (1 / 2) (1 / 20) [''Aux'', ''Wifi'']],
       True),
      ([KefMediaPlayer_init ''Kitchen'' ''192.168.1.21'' 50001 (1 / 2) (1 / 20)
          [''Aux'', ''Wifi'']],
       True)]"
    by (simp add: async_setup_platform_def Let_def hass0_def living_room_def kitchen_def port)
  from second_setup_adds_nothing [OF h p, of "[''Aux'', ''Wifi'']" hass0 "[kitchen]"]
  have "async_setup_platform [''Aux'', ''Wifi'']
       (foldl (async_setup_platform [''Aux'', ''Wifi''])
          (async_setup_platform [''Aux'', ''Wifi''] hass0 living_room) [kitchen])
       living_room_renamed =
     foldl (async_setup_platform [''Aux'', ''Wifi''])
       (async_setup_platform [''Aux'', ''Wifi''] hass0 living_room) [kitchen]"
    by blast
  with h p two show ?thesis by simp
qed

end
